theory Spec2Isabelle
  imports Main "HOL-Library.Word" "HOL-Library.Signed_Division" "HOL-Library.Multiset"
    "HOL-Library.Sublist"
begin

section \<open>Receipt processor: the data model\<close>

text \<open>
  The embedding follows \<^verbatim>\<open>Main.go\<close>. A Go string is a sequence of bytes, so it is a
  \<^typ>\<open>string\<close> here (a list of 8-bit characters) and \<^verbatim>\<open>len\<close> is \<^const>\<open>length\<close>.
  Go's \<^verbatim>\<open>int\<close> is taken at its 64-bit width: \<^verbatim>\<open>points\<close> is a \<^typ>\<open>64 word\<close>, read
  as a signed number by \<^const>\<open>sint\<close>, and \<^verbatim>\<open>+=\<close> wraps around as it does in Go.
\<close>

record Item =
  Description :: string
  Price :: string

record Receipt =
  StoreName :: string
  DateOfPurchase :: string
  TimeOfPurchase :: string
  TotalAmount :: string
  PurchasedItems :: "Item list"

text \<open>A run-time panic of the Go program.\<close>

datatype panic = IndexOutOfRange nat nat

section \<open>Library functions the program calls\<close>

subsection \<open>Bytes and runes\<close>

definition byte :: "char \<Rightarrow> nat" where
  "byte c = of_char c"

text \<open>
  \<^verbatim>\<open>utf8.DecodeRuneInString\<close>: the first rune of a string and its width in bytes;
  an invalid or truncated encoding is \<^verbatim>\<open>RuneError\<close> of width 1. \<open>first_info\<close> is the
  library's table \<^verbatim>\<open>first\<close> joined with \<^verbatim>\<open>acceptRanges\<close>: for a leading byte, the
  length of the sequence and the range accepted for the second byte.
\<close>

definition RuneError :: nat where
  "RuneError = 0xFFFD"

definition first_info :: "nat \<Rightarrow> (nat \<times> nat \<times> nat) option" where
  "first_info b =
     (if 0xC2 \<le> b \<and> b \<le> 0xDF then Some (2, 0x80, 0xBF)
      else if b = 0xE0 then Some (3, 0xA0, 0xBF)
      else if 0xE1 \<le> b \<and> b \<le> 0xEC then Some (3, 0x80, 0xBF)
      else if b = 0xED then Some (3, 0x80, 0x9F)
      else if 0xEE \<le> b \<and> b \<le> 0xEF then Some (3, 0x80, 0xBF)
      else if b = 0xF0 then Some (4, 0x90, 0xBF)
      else if 0xF1 \<le> b \<and> b \<le> 0xF3 then Some (4, 0x80, 0xBF)
      else if b = 0xF4 then Some (4, 0x80, 0x8F)
      else None)"

definition continuation :: "nat \<Rightarrow> bool" where
  "continuation b = (0x80 \<le> b \<and> b \<le> 0xBF)"

definition DecodeRuneInString :: "string \<Rightarrow> nat \<times> nat" where
  "DecodeRuneInString s =
     (if length s < 1 then (RuneError, 0)
      else let s0 = byte (s ! 0) in
        if s0 < 0x80 then (s0, 1)
        else (case first_info s0 of
            None \<Rightarrow> (RuneError, 1)
          | Some (sz, lo, hi) \<Rightarrow>
              if length s < sz then (RuneError, 1)
              else let s1 = byte (s ! 1) in
                if s1 < lo \<or> hi < s1 then (RuneError, 1)
                else if sz \<le> 2 then ((s0 mod 32) * 64 + s1 mod 64, 2)
                else let s2 = byte (s ! 2) in
                  if \<not> continuation s2 then (RuneError, 1)
                  else if sz \<le> 3 then ((s0 mod 16) * 4096 + (s1 mod 64) * 64 + s2 mod 64, 3)
                  else let s3 = byte (s ! 3) in
                    if \<not> continuation s3 then (RuneError, 1)
                    else ((s0 mod 8) * 262144 + (s1 mod 64) * 4096
                            + (s2 mod 64) * 64 + s3 mod 64, 4)))"

text \<open>
  \<^verbatim>\<open>for _, char := range s\<close> visits the runes of \<open>s\<close>: it decodes one rune, moves on by
  its width and stops at the end of the string. The width of a rune of a non-empty string
  is at least 1 (\<open>max 1\<close> makes the recursion visibly terminate; it never changes a width).
\<close>

function range_runes :: "string \<Rightarrow> nat list" where
  "range_runes s =
     (if s = [] then []
      else fst (DecodeRuneInString s) # range_runes (drop (max 1 (snd (DecodeRuneInString s))) s))"
  by pat_completeness auto
termination
  by (relation "measure length") auto

declare range_runes.simps [simp del]

text \<open>
  \<^verbatim>\<open>utf8.DecodeLastRuneInString\<close>: the last rune of a string. It walks back at most
  \<^verbatim>\<open>UTFMax = 4\<close> bytes to a byte that can start a rune (\<^verbatim>\<open>RuneStart\<close>) and decodes
  forward from there; the rune counts only if it ends exactly at the end of the string.
\<close>

definition RuneStart :: "nat \<Rightarrow> bool" where
  "RuneStart b = (\<not> continuation b)"

function scan_back :: "string \<Rightarrow> int \<Rightarrow> int \<Rightarrow> int" where
  "scan_back s start lim =
     (if start \<ge> lim \<and> start \<ge> 0
      then (if RuneStart (byte (s ! nat start)) then start else scan_back s (start - 1) lim)
      else start)"
  by pat_completeness auto
termination
  by (relation "measure (\<lambda>(s, start, lim). nat (start + 1))") auto

declare scan_back.simps [simp del]

definition DecodeLastRuneInString :: "string \<Rightarrow> nat \<times> nat" where
  "DecodeLastRuneInString s =
     (let end = int (length s) in
      if end = 0 then (RuneError, 0)
      else let r = byte (s ! nat (end - 1)) in
        if r < 0x80 then (r, 1)
        else let lim = (if end - 4 < 0 then 0 else end - 4);
                 start0 = scan_back s (end - 2) lim;
                 start = (if start0 < 0 then 0 else start0);
                 (r, size) = DecodeRuneInString (drop (nat start) s)
             in if start + int size \<noteq> end then (RuneError, 1) else (r, size))"

subsection \<open>Package strings\<close>

definition HasSuffix :: "string \<Rightarrow> string \<Rightarrow> bool" where
  "HasSuffix s suf =
     (length s \<ge> length suf \<and> drop (length s - length suf) s = suf)"

definition HasPrefix :: "string \<Rightarrow> string \<Rightarrow> bool" where
  "HasPrefix s pre = (length s \<ge> length pre \<and> take (length pre) s = pre)"

definition TrimPrefix :: "string \<Rightarrow> string \<Rightarrow> string" where
  "TrimPrefix s pre = (if HasPrefix s pre then drop (length pre) s else s)"

definition TrimSuffix :: "string \<Rightarrow> string \<Rightarrow> string" where
  "TrimSuffix s suf =
     (if HasSuffix s suf then take (length s - length suf) s else s)"

text \<open>
  \<^verbatim>\<open>strings.Split(s, sep)\<close> for a separator of one byte, which is how the program
  calls it (\<^verbatim>\<open>"-"\<close> and \<^verbatim>\<open>":"\<close>): the pieces between the occurrences of the
  separator, one more piece than there are separators, so never an empty list.
\<close>

fun Split :: "string \<Rightarrow> char \<Rightarrow> string list" where
  "Split [] sep = [[]]"
| "Split (c # cs) sep =
     (if c = sep then [] # Split cs sep
      else (c # hd (Split cs sep)) # tl (Split cs sep))"

text \<open>
  \<^verbatim>\<open>unicode.IsSpace\<close>: the Latin-1 white space, and beyond Latin-1 the code points
  of the Unicode property White_Space.
\<close>

definition IsSpace :: "nat \<Rightarrow> bool" where
  "IsSpace r =
     (if r \<le> 0xFF
      then r = 0x09 \<or> r = 0x0A \<or> r = 0x0B \<or> r = 0x0C \<or> r = 0x0D \<or> r = 0x20
           \<or> r = 0x85 \<or> r = 0xA0
      else r = 0x1680 \<or> (0x2000 \<le> r \<and> r \<le> 0x200A) \<or> r = 0x2028 \<or> r = 0x2029
           \<or> r = 0x202F \<or> r = 0x205F \<or> r = 0x3000)"

text \<open>The table \<^verbatim>\<open>asciiSpace\<close> of package strings.\<close>

definition asciiSpace :: "nat \<Rightarrow> bool" where
  "asciiSpace b = (b = 0x09 \<or> b = 0x0A \<or> b = 0x0B \<or> b = 0x0C \<or> b = 0x0D \<or> b = 0x20)"

text \<open>
  \<^verbatim>\<open>strings.TrimLeftFunc(s, f)\<close> drops the leading runes that satisfy \<open>f\<close>
  (\<^verbatim>\<open>indexFunc\<close> finds the first rune that does not).
\<close>

function TrimLeftFunc :: "string \<Rightarrow> (nat \<Rightarrow> bool) \<Rightarrow> string" where
  "TrimLeftFunc s f =
     (if s = [] then []
      else if f (fst (DecodeRuneInString s))
        then TrimLeftFunc (drop (max 1 (snd (DecodeRuneInString s))) s) f
        else s)"
  by pat_completeness auto
termination
  by (relation "measure (\<lambda>(s, f). length s)") auto

declare TrimLeftFunc.simps [simp del]

text \<open>
  \<^verbatim>\<open>lastIndexFunc(s, f, false)\<close>: the index at which the last rune not satisfying
  \<open>f\<close> starts, reading runes from the end; \<open>-1\<close> when every rune satisfies \<open>f\<close>.
  The argument \<open>i\<close> is the loop variable, \<^verbatim>\<open>len(s)\<close> at the start.
\<close>

function lastIndexFunc :: "string \<Rightarrow> (nat \<Rightarrow> bool) \<Rightarrow> nat \<Rightarrow> int" where
  "lastIndexFunc s f i =
     (if i = 0 then - 1
      else let r = fst (DecodeLastRuneInString (take i s));
               i' = i - max 1 (snd (DecodeLastRuneInString (take i s)))
           in if \<not> f r then int i' else lastIndexFunc s f i')"
  by pat_completeness auto
termination
  by (relation "measure (\<lambda>(s, f, i). i)") auto

declare lastIndexFunc.simps [simp del]

definition TrimRightFunc :: "string \<Rightarrow> (nat \<Rightarrow> bool) \<Rightarrow> string" where
  "TrimRightFunc s f =
     (let i = lastIndexFunc s f (length s);
          j = (if i \<ge> 0 \<and> byte (s ! nat i) \<ge> 0x80
               then i + int (snd (DecodeRuneInString (drop (nat i) s)))
               else i + 1)
      in take (nat j) s)"

definition TrimFunc :: "string \<Rightarrow> (nat \<Rightarrow> bool) \<Rightarrow> string" where
  "TrimFunc s f = TrimRightFunc (TrimLeftFunc s f) f"

text \<open>
  \<^verbatim>\<open>strings.TrimSpace\<close>: ASCII white space is skipped byte by byte from the
  front and then from the back; at the first byte outside ASCII the function hands over
  to the rune-wise \<^verbatim>\<open>TrimFunc\<close> or \<^verbatim>\<open>TrimRightFunc\<close>.
\<close>

function TrimSpace_stop :: "string \<Rightarrow> string" where
  "TrimSpace_stop s =
     (if s = [] then []
      else if byte (last s) \<ge> 0x80 then TrimRightFunc s IsSpace
      else if asciiSpace (byte (last s)) then TrimSpace_stop (butlast s)
      else s)"
  by pat_completeness auto
termination
  by (relation "measure length") auto

declare TrimSpace_stop.simps [simp del]

fun TrimSpace :: "string \<Rightarrow> string" where
  "TrimSpace [] = []"
| "TrimSpace (c # cs) =
     (if byte c \<ge> 0x80 then TrimFunc (c # cs) IsSpace
      else if asciiSpace (byte c) then TrimSpace cs
      else TrimSpace_stop (c # cs))"

declare TrimSpace.simps [simp del]

subsection \<open>Package strconv: integers\<close>

datatype NumError = ErrSyntax | ErrRange

definition isDigit :: "char \<Rightarrow> bool" where
  "isDigit c = (0x30 \<le> byte c \<and> byte c \<le> 0x39)"

definition digitVal :: "char \<Rightarrow> nat" where
  "digitVal c = byte c - 0x30"

text \<open>
  \<^verbatim>\<open>strconv.ParseUint(s, 10, 64)\<close>, its loop first: it returns at the first byte
  that is not a digit (syntax error, value 0) or at the first overflow (range error,
  value \<^verbatim>\<open>maxVal\<close>), whichever comes first.
\<close>

definition maxUint64 :: nat where
  "maxUint64 = 2 ^ 64 - 1"

fun ParseUint_loop :: "string \<Rightarrow> nat \<Rightarrow> nat \<times> NumError option" where
  "ParseUint_loop [] n = (n, None)"
| "ParseUint_loop (c # cs) n =
     (if \<not> isDigit c then (0, Some ErrSyntax)
      else if n \<ge> maxUint64 div 10 + 1 then (maxUint64, Some ErrRange)
      else if n * 10 + digitVal c > maxUint64 then (maxUint64, Some ErrRange)
      else ParseUint_loop cs (n * 10 + digitVal c))"

definition ParseUint :: "string \<Rightarrow> nat \<times> NumError option" where
  "ParseUint s = (if s = [] then (0, Some ErrSyntax) else ParseUint_loop s 0)"

text \<open>\<^verbatim>\<open>strconv.ParseInt(s, 10, 0)\<close>, the result an \<^verbatim>\<open>int64\<close>.\<close>

definition ParseInt :: "string \<Rightarrow> int \<times> NumError option" where
  "ParseInt s =
     (if s = [] then (0, Some ErrSyntax)
      else let neg = (hd s = CHR ''-'');
               s1 = (if hd s = CHR ''+'' \<or> hd s = CHR ''-'' then tl s else s);
               (un, err) = ParseUint s1
           in if err = Some ErrSyntax then (0, err)
              else if \<not> neg \<and> un \<ge> 2 ^ 63 then (2 ^ 63 - 1, Some ErrRange)
              else if neg \<and> un > 2 ^ 63 then (- (2 ^ 63), Some ErrRange)
              else (if neg then - int un else int un, None))"

text \<open>
  \<^verbatim>\<open>strconv.Atoi\<close>: a fast path for strings of 1 to 18 bytes, which cannot overflow,
  and \<^verbatim>\<open>ParseInt\<close> for the rest.
\<close>

fun Atoi_loop :: "string \<Rightarrow> int \<Rightarrow> int option" where
  "Atoi_loop [] n = Some n"
| "Atoi_loop (ch # cs) n =
     (if \<not> isDigit ch then None else Atoi_loop cs (n * 10 + int (digitVal ch)))"

definition Atoi :: "string \<Rightarrow> int \<times> NumError option" where
  "Atoi s =
     (if 0 < length s \<and> length s < 19
      then let s1 = (if hd s = CHR ''-'' \<or> hd s = CHR ''+'' then tl s else s)
           in if (hd s = CHR ''-'' \<or> hd s = CHR ''+'') \<and> length s1 < 1 then (0, Some ErrSyntax)
              else (case Atoi_loop s1 0 of
                      None \<Rightarrow> (0, Some ErrSyntax)
                    | Some n \<Rightarrow> (if hd s = CHR ''-'' then - n else n, None))
      else ParseInt s)"

subsection \<open>Floating point\<close>

text \<open>
  A \<^verbatim>\<open>float64\<close> is an IEEE 754 double. \<open>Finite s m e\<close> stands for the number
  \<open>(-1)\<^sup>s * m * 2\<^sup>e\<close> (so both zeros are there: \<open>m = 0\<close>), \<open>Infinite s\<close> for the two
  infinities and \<open>NaN\<close> for not-a-number. Every operation below returns the exact
  result when it is a double, and rounds to the nearest double, ties to even, otherwise.
\<close>

datatype float64 = Finite bool nat int | Infinite bool | NaN

fun bit_length :: "nat \<Rightarrow> nat" where
  "bit_length n = (if n = 0 then 0 else Suc (bit_length (n div 2)))"

declare bit_length.simps [simp del]

text \<open>\<open>floor_log2 n d\<close> is the integer \<open>k\<close> with \<open>2\<^sup>k \<le> n / d < 2\<^sup>k\<^sup>+\<^sup>1\<close>, for positive \<open>n\<close>, \<open>d\<close>.\<close>

definition floor_log2 :: "nat \<Rightarrow> nat \<Rightarrow> int" where
  "floor_log2 n d =
     (let k = int (bit_length n) - int (bit_length d)
      in if (if k \<ge> 0 then d * 2 ^ nat k \<le> n else d \<le> n * 2 ^ nat (- k)) then k else k - 1)"

text \<open>
  \<open>round_float64 s n d\<close> is the double nearest to \<open>(-1)\<^sup>s * n / d\<close>, ties to even
  (\<open>d > 0\<close>). The unit in the last place is \<open>2\<^sup>q\<close> with \<open>q = max e (-1022) - 52\<close> for
  \<open>e = floor_log2 n d\<close>, which covers the subnormal numbers; \<open>m\<close> is \<open>n / d\<close> in
  these units, rounded. The result overflows to infinity when it reaches \<open>2\<^sup>1\<^sup>0\<^sup>2\<^sup>4\<close>.
\<close>

definition round_float64 :: "bool \<Rightarrow> nat \<Rightarrow> nat \<Rightarrow> float64" where
  "round_float64 s n d =
     (if n = 0 then Finite s 0 0
      else let e = max (floor_log2 n d) (- 1022);
               q = e - 52;
               N = (if q < 0 then n * 2 ^ nat (- q) else n);
               D = (if q < 0 then d else d * 2 ^ nat q);
               m0 = N div D;
               r = N mod D;
               m = (if 2 * r < D then m0
                    else if 2 * r > D then m0 + 1
                    else if even m0 then m0 else m0 + 1)
           in if 1023 < e \<or> (e = 1023 \<and> m = 2 ^ 53) then Infinite s else Finite s m q)"

text \<open>The product \<^verbatim>\<open>x * y\<close> of two doubles.\<close>

fun fmul :: "float64 \<Rightarrow> float64 \<Rightarrow> float64" where
  "fmul NaN y = NaN"
| "fmul x NaN = NaN"
| "fmul (Infinite s) (Infinite t) = Infinite (s \<noteq> t)"
| "fmul (Infinite s) (Finite t m e) = (if m = 0 then NaN else Infinite (s \<noteq> t))"
| "fmul (Finite s m e) (Infinite t) = (if m = 0 then NaN else Infinite (s \<noteq> t))"
| "fmul (Finite s m e) (Finite t m' e') =
     (if e + e' \<ge> 0 then round_float64 (s \<noteq> t) (m * m' * 2 ^ nat (e + e')) 1
      else round_float64 (s \<noteq> t) (m * m') (2 ^ nat (- (e + e'))))"

text \<open>
  \<^verbatim>\<open>math.Mod(x, y)\<close>: the remainder of \<open>x / y\<close>, of magnitude less than \<open>y\<close> and
  with the sign of \<open>x\<close>; it is always a double, so nothing is rounded. The special
  cases are those of the library: \<^verbatim>\<open>Mod(\<plusminus>Inf, y) = NaN\<close>, \<^verbatim>\<open>Mod(NaN, y) = NaN\<close>,
  \<^verbatim>\<open>Mod(x, 0) = NaN\<close>, \<^verbatim>\<open>Mod(x, \<plusminus>Inf) = x\<close>, \<^verbatim>\<open>Mod(x, NaN) = NaN\<close>.
\<close>

fun Mod :: "float64 \<Rightarrow> float64 \<Rightarrow> float64" where
  "Mod NaN y = NaN"
| "Mod x NaN = NaN"
| "Mod (Infinite s) y = NaN"
| "Mod (Finite s m e) (Infinite t) = Finite s m e"
| "Mod (Finite s m e) (Finite t m' e') =
     (if m' = 0 then NaN
      else let c = min e e'
           in Finite s ((m * 2 ^ nat (e - c)) mod (m' * 2 ^ nat (e' - c))) c)"

text \<open>\<^verbatim>\<open>math.Ceil(x)\<close>: the least integer value not below \<open>x\<close>; zeros, infinities and NaN stay.\<close>

fun Ceil :: "float64 \<Rightarrow> float64" where
  "Ceil NaN = NaN"
| "Ceil (Infinite s) = Infinite s"
| "Ceil (Finite s m e) =
     (if e \<ge> 0 then Finite s m e
      else if s then Finite True (m div 2 ^ nat (- e)) 0
      else Finite False ((m + 2 ^ nat (- e) - 1) div 2 ^ nat (- e)) 0)"

text \<open>The comparison \<^verbatim>\<open>x == 0\<close>: true of both zeros, false of NaN.\<close>

fun is_zero :: "float64 \<Rightarrow> bool" where
  "is_zero (Finite s m e) = (m = 0)"
| "is_zero x = False"

text \<open>
  The conversion \<^verbatim>\<open>int(x)\<close> of a double: the fraction is discarded (truncation
  towards zero). When the value does not fit the 64 bits of \<^verbatim>\<open>int\<close>, or is an infinity
  or NaN, the language leaves the result to the implementation; \<open>impl\<close> is that result,
  a parameter of the model.
\<close>

definition trunc_float64 :: "float64 \<Rightarrow> int option" where
  "trunc_float64 x =
     (case x of
        Finite s m e \<Rightarrow>
          (let mag = (if e \<ge> 0 then m * 2 ^ nat e else m div 2 ^ nat (- e));
               v = (if s then - int mag else int mag)
           in if - (2 ^ 63) \<le> v \<and> v < 2 ^ 63 then Some v else None)
      | _ \<Rightarrow> None)"

definition float64_to_int :: "(float64 \<Rightarrow> 64 word) \<Rightarrow> float64 \<Rightarrow> 64 word" where
  "float64_to_int impl x = (case trunc_float64 x of Some v \<Rightarrow> word_of_int v | None \<Rightarrow> impl x)"

text \<open>The constants \<^verbatim>\<open>0.25\<close> and \<^verbatim>\<open>0.2\<close> of the program, as doubles.\<close>

definition const_0_25 :: float64 where
  "const_0_25 = round_float64 False 25 100"

definition const_0_2 :: float64 where
  "const_0_2 = round_float64 False 2 10"

subsection \<open>Package strconv: \<^verbatim>\<open>ParseFloat\<close>\<close>

text \<open>\<^verbatim>\<open>lower(c)\<close> sets the bit \<open>0x20\<close> of a byte, which maps an ASCII capital to its small letter.\<close>

definition lower :: "char \<Rightarrow> nat" where
  "lower c = (if (byte c div 32) mod 2 = 0 then byte c + 32 else byte c)"

definition isHexLetter :: "char \<Rightarrow> bool" where
  "isHexLetter c = (0x61 \<le> lower c \<and> lower c \<le> 0x66)"

text \<open>
  \<^verbatim>\<open>commonPrefixLenIgnoreCase(s, prefix)\<close>, for a prefix in small letters: how many
  leading bytes of \<open>s\<close> agree with it once ASCII capitals are made small.
\<close>

fun commonPrefixLenIgnoreCase :: "string \<Rightarrow> string \<Rightarrow> nat" where
  "commonPrefixLenIgnoreCase (c # cs) (p # ps) =
     (if (if 0x41 \<le> byte c \<and> byte c \<le> 0x5A then byte c + 32 else byte c) \<noteq> byte p then 0
      else Suc (commonPrefixLenIgnoreCase cs ps))"
| "commonPrefixLenIgnoreCase s pre = 0"

text \<open>
  \<^verbatim>\<open>special(s)\<close> reads an infinity (with a sign or none) or \<^verbatim>\<open>nan\<close> (with none)
  and tells how many bytes it took.
\<close>

definition special_inf :: "bool \<Rightarrow> nat \<Rightarrow> string \<Rightarrow> (float64 \<times> nat) option" where
  "special_inf neg nsign s =
     (let n0 = commonPrefixLenIgnoreCase s ''infinity'';
          n = (if 3 < n0 \<and> n0 < 8 then 3 else n0)
      in if n = 3 \<or> n = 8 then Some (Infinite neg, nsign + n) else None)"

definition special :: "string \<Rightarrow> (float64 \<times> nat) option" where
  "special s =
     (if length s = 0 then None
      else if hd s = CHR ''+'' \<or> hd s = CHR ''-'' then special_inf (hd s = CHR ''-'') 1 (tl s)
      else if hd s = CHR ''i'' \<or> hd s = CHR ''I'' then special_inf False 0 s
      else if hd s = CHR ''n'' \<or> hd s = CHR ''N''
        then (if commonPrefixLenIgnoreCase s ''nan'' = 3 then Some (NaN, 3) else None)
      else None)"

text \<open>
  \<^verbatim>\<open>underscoreOK(s)\<close>: underscores may only separate digits, or follow a base
  prefix. \<open>saw\<close> is the kind of the last byte seen, as in the library.
\<close>

fun underscoreOK_loop :: "bool \<Rightarrow> string \<Rightarrow> char \<Rightarrow> bool" where
  "underscoreOK_loop hex [] saw = (saw \<noteq> CHR ''_'')"
| "underscoreOK_loop hex (c # cs) saw =
     (if isDigit c \<or> (hex \<and> isHexLetter c) then underscoreOK_loop hex cs CHR ''0''
      else if c = CHR ''_''
        then (if saw \<noteq> CHR ''0'' then False else underscoreOK_loop hex cs CHR ''_'')
      else if saw = CHR ''_'' then False
      else underscoreOK_loop hex cs CHR ''!'')"

definition underscoreOK :: "string \<Rightarrow> bool" where
  "underscoreOK s =
     (let s1 = (if length s \<ge> 1 \<and> (hd s = CHR ''-'' \<or> hd s = CHR ''+'') then tl s else s)
      in if length s1 \<ge> 2 \<and> s1 ! 0 = CHR ''0''
            \<and> (lower (s1 ! 1) = 0x62 \<or> lower (s1 ! 1) = 0x6F \<or> lower (s1 ! 1) = 0x78)
         then underscoreOK_loop (lower (s1 ! 1) = 0x78) (drop 2 s1) CHR ''0''
         else underscoreOK_loop False s1 CHR ''^'')"

text \<open>
  \<^verbatim>\<open>readFloat\<close>, its digit loop first. The state is that of the library's loop,
  but for the mantissa: the library keeps the first 19 digits (16 in base 16) and a flag
  that something was cut, and reads the text again where those do not decide the
  rounding; the model keeps every digit, so that \<open>nd\<close> is also the library's
  \<^verbatim>\<open>ndMant\<close>. The number read is \<open>mantissa * 10\<^bsup>dp - nd\<^esup>\<close>.
\<close>

record digits =
  sawdot :: bool
  sawdigits :: bool
  nd :: nat
  dp :: int
  mantissa :: nat
  underscores :: bool

fun readDigits :: "nat \<Rightarrow> string \<Rightarrow> digits \<Rightarrow> digits \<times> string" where
  "readDigits base [] st = (st, [])"
| "readDigits base (c # cs) st =
     (if c = CHR ''_'' then readDigits base cs (st\<lparr>underscores := True\<rparr>)
      else if c = CHR ''.''
        then (if sawdot st then (st, c # cs)
              else readDigits base cs (st\<lparr>sawdot := True, dp := int (nd st)\<rparr>))
      else if isDigit c
        then (if c = CHR ''0'' \<and> nd st = 0
              then readDigits base cs (st\<lparr>sawdigits := True, dp := dp st - 1\<rparr>)
              else readDigits base cs
                     (st\<lparr>sawdigits := True, nd := nd st + 1,
                         mantissa := mantissa st * base + digitVal c\<rparr>))
      else if base = 16 \<and> isHexLetter c
        then readDigits base cs
               (st\<lparr>sawdigits := True, nd := nd st + 1,
                   mantissa := mantissa st * 16 + (lower c - 0x61 + 10)\<rparr>)
      else (st, c # cs))"

text \<open>The digits of the exponent; the library stops adding them up from 10000 on.\<close>

fun readExp_loop :: "string \<Rightarrow> nat \<Rightarrow> bool \<Rightarrow> nat \<times> bool \<times> string" where
  "readExp_loop [] e u = (e, u, [])"
| "readExp_loop (c # cs) e u =
     (if c = CHR ''_'' then readExp_loop cs e True
      else if isDigit c then readExp_loop cs (if e < 10000 then e * 10 + digitVal c else e) u
      else (e, u, c # cs))"

text \<open>
  \<^verbatim>\<open>readFloat(s)\<close> gives the mantissa, the exponent (of 10, or of 2 for a
  hexadecimal number), the sign, whether the number is hexadecimal, and the text left
  unread; \<open>None\<close> is the library's \<^verbatim>\<open>ok = false\<close>.
\<close>

definition readFloat :: "string \<Rightarrow> (nat \<times> int \<times> bool \<times> bool \<times> string) option" where
  "readFloat s =
     (if s = [] then None
      else let neg = (hd s = CHR ''-'');
               s1 = (if hd s = CHR ''+'' \<or> hd s = CHR ''-'' then tl s else s);
               hex = (2 < length s1 \<and> s1 ! 0 = CHR ''0'' \<and> lower (s1 ! 1) = 0x78);
               base = (if hex then 16 else 10);
               expChar = (if hex then 0x70 else 0x65);
               s2 = (if hex then drop 2 s1 else s1);
               (st, s3) = readDigits base s2
                  \<lparr>sawdot = False, sawdigits = False, nd = 0, dp = 0, mantissa = 0,
                   underscores = False\<rparr>
           in if \<not> sawdigits st then None
              else let dp1 = (if \<not> sawdot st then int (nd st) else dp st);
                       dp2 = (if hex then dp1 * 4 else dp1);
                       ndMant = (if hex then int (nd st) * 4 else int (nd st))
                   in if s3 \<noteq> [] \<and> lower (hd s3) = expChar
                      then let s4 = tl s3
                           in if s4 = [] then None
                              else let esign = (if hd s4 = CHR ''-'' then - 1 else 1);
                                       s5 = (if hd s4 = CHR ''+'' \<or> hd s4 = CHR ''-''
                                             then tl s4 else s4)
                                   in if s5 = [] \<or> \<not> isDigit (hd s5) then None
                                      else let (e, u, s6) = readExp_loop s5 0 (underscores st);
                                               dp3 = dp2 + int e * esign;
                                               exp = (if mantissa st \<noteq> 0 then dp3 - ndMant else 0)
                                           in if u \<and> \<not> underscoreOK (take (length s - length s6) s)
                                              then None
                                              else Some (mantissa st, exp, neg, hex, s6)
                      else if hex then None
                      else let exp = (if mantissa st \<noteq> 0 then dp2 - ndMant else 0)
                           in if underscores st \<and> \<not> underscoreOK (take (length s - length s3) s)
                              then None
                              else Some (mantissa st, exp, neg, hex, s3))"

text \<open>
  \<^verbatim>\<open>atof64(s)\<close>: the double nearest to the number read (the library's fast and slow
  paths all give the correctly rounded result), with how many bytes were read. A number
  that rounds to an infinity is a range error.
\<close>

definition scale_float64 :: "bool \<Rightarrow> nat \<Rightarrow> nat \<Rightarrow> int \<Rightarrow> float64" where
  "scale_float64 neg m b exp =
     (if exp \<ge> 0 then round_float64 neg (m * b ^ nat exp) 1
      else round_float64 neg m (b ^ nat (- exp)))"

definition atof64 :: "string \<Rightarrow> float64 \<times> nat \<times> NumError option" where
  "atof64 s =
     (case special s of
        Some (val, n) \<Rightarrow> (val, n, None)
      | None \<Rightarrow>
         (case readFloat s of
            None \<Rightarrow> (Finite False 0 0, 0, Some ErrSyntax)
          | Some (m, exp, neg, hex, rest) \<Rightarrow>
              (let f = scale_float64 neg m (if hex then 2 else 10) exp
               in (f, length s - length rest,
                   (case f of Infinite _ \<Rightarrow> Some ErrRange | _ \<Rightarrow> None)))))"

text \<open>
  \<^verbatim>\<open>strconv.ParseFloat(s, 64)\<close>: the whole string has to be a number, else the
  result is 0 with a syntax error.
\<close>

definition ParseFloat :: "string \<Rightarrow> float64 \<times> NumError option" where
  "ParseFloat s =
     (let (f, n, err) = atof64 s
      in if n \<noteq> length s \<and> err \<noteq> Some ErrSyntax then (Finite False 0 0, Some ErrSyntax)
         else (f, err))"

text \<open>
  The result of an out-of-range conversion \<^verbatim>\<open>int(x)\<close> on amd64, where the
  instruction gives the "integer indefinite" value \<open>-2\<^sup>6\<^sup>3\<close>.
\<close>

definition amd64 :: "float64 \<Rightarrow> 64 word" where
  "amd64 x = 0x8000000000000000"

subsection \<open>Package regexp\<close>

text \<open>
  \<^verbatim>\<open>regexp.MustCompile(`^\S+$`).MatchString(s)\<close>: the whole text is one or more
  characters none of which is white space; for this package white space is the class
  \<^verbatim>\<open>[\t\n\f\r ]\<close>.
\<close>

definition reSpace :: "char \<Rightarrow> bool" where
  "reSpace c = (byte c = 0x09 \<or> byte c = 0x0A \<or> byte c = 0x0C \<or> byte c = 0x0D \<or> byte c = 0x20)"

definition MatchString_nonspace :: "string \<Rightarrow> bool" where
  "MatchString_nonspace s = (s \<noteq> [] \<and> list_all (\<lambda>c. \<not> reSpace c) s)"

section \<open>The program\<close>

subsection \<open>\<^verbatim>\<open>isAlphanumeric\<close> and \<^verbatim>\<open>computePoints\<close>\<close>

definition isAlphanumeric :: "nat \<Rightarrow> bool" where
  "isAlphanumeric char =
     ((char \<ge> 0x61 \<and> char \<le> 0x7A) \<or> (char \<ge> 0x41 \<and> char \<le> 0x5A)
      \<or> (char \<ge> 0x30 \<and> char \<le> 0x39))"

text \<open>The loop over the runes of \<^verbatim>\<open>receipt.StoreName\<close> (lines 105 to 109).\<close>

fun retailer_loop :: "nat list \<Rightarrow> 64 word \<Rightarrow> 64 word" where
  "retailer_loop [] points = points"
| "retailer_loop (char # rest) points =
     retailer_loop rest (if isAlphanumeric char then points + 1 else points)"

text \<open>
  The loop over \<^verbatim>\<open>receipt.PurchasedItems\<close> (lines 122 to 127). The error of
  \<^verbatim>\<open>ParseFloat\<close> is dropped, as in the source.
\<close>

fun items_loop :: "(float64 \<Rightarrow> 64 word) \<Rightarrow> Item list \<Rightarrow> 64 word \<Rightarrow> 64 word" where
  "items_loop impl [] points = points"
| "items_loop impl (item # rest) points =
     items_loop impl rest
       (if length (TrimSpace (Description item)) mod 3 = 0
        then let price = fst (ParseFloat (Price item))
             in points + float64_to_int impl (Ceil (fmul price const_0_2))
        else points)"

text \<open>
  \<^verbatim>\<open>computePoints\<close>. The index expression \<^verbatim>\<open>dateParts[2]\<close> panics when the date
  has fewer than three parts; \<^verbatim>\<open>timeParts[0]\<close> cannot, since \<^verbatim>\<open>Split\<close> never
  returns an empty slice. The count \<^verbatim>\<open>len(receipt.PurchasedItems)\<close> fits an
  \<^verbatim>\<open>int\<close>, so half of it is computed before the conversion to a word. Go's \<^verbatim>\<open>%\<close>
  truncates, which is \<open>smod\<close>.
\<close>

definition computePoints :: "(float64 \<Rightarrow> 64 word) \<Rightarrow> Receipt \<Rightarrow> panic + 64 word" where
  "computePoints impl receipt =
     (let points = 0;
          points = retailer_loop (range_runes (StoreName receipt)) points;
          points = (if HasSuffix (TotalAmount receipt) ''.00'' then points + 50 else points);
          totalValue = fst (ParseFloat (TotalAmount receipt));
          points = (if is_zero (Mod totalValue const_0_25) then points + 25 else points);
          points = points + word_of_nat (length (PurchasedItems receipt) div 2) * 5;
          points = items_loop impl (PurchasedItems receipt) points;
          dateParts = Split (DateOfPurchase receipt) CHR ''-''
      in if length dateParts \<le> 2 then Inl (IndexOutOfRange 2 (length dateParts))
         else let day = fst (Atoi (dateParts ! 2));
                  points = (if day smod 2 \<noteq> 0 then points + 6 else points);
                  timeParts = Split (TimeOfPurchase receipt) CHR '':'';
                  hour = fst (Atoi (timeParts ! 0));
                  points = (if hour \<ge> 14 \<and> hour < 16 then points + 10 else points)
              in Inr points)"

subsection \<open>The store and the two handlers\<close>

text \<open>
  \<^verbatim>\<open>receiptStorage\<close> is a map from identifiers to receipts. A handler takes the
  store and returns it; the mutex makes each access atomic, so one handler's accesses
  are steps of a sequential program. What a handler writes to the
  \<^verbatim>\<open>ResponseWriter\<close> is a \<open>response\<close>: an error with its status code and message,
  or the JSON value encoded.
\<close>

type_synonym storage = "string \<rightharpoonup> Receipt"

datatype response =
    HttpError nat string
  | ReceiptResponse string
  | PointsResponse "64 word"

definition valid_receipt :: "Receipt \<Rightarrow> bool" where
  "valid_receipt receipt =
     (\<not> (StoreName receipt = [] \<or> DateOfPurchase receipt = [] \<or> TimeOfPurchase receipt = []
         \<or> TotalAmount receipt = [] \<or> length (PurchasedItems receipt) = 0))"

text \<open>
  \<^verbatim>\<open>processReceipt\<close>. \<open>method\<close> is \<^verbatim>\<open>r.Method\<close>; \<open>body\<close> is what the JSON decoder
  makes of the request body, \<open>None\<close> when it reports an error; \<open>newID\<close> is the
  string that \<^verbatim>\<open>uuid.New().String()\<close> returns when it is called.
\<close>

definition processReceipt ::
    "string \<Rightarrow> Receipt option \<Rightarrow> string \<Rightarrow> storage \<Rightarrow> response \<times> storage" where
  "processReceipt method body newID receiptStorage =
     (if method \<noteq> ''POST'' then (HttpError 405 ''Method not allowed'', receiptStorage)
      else (case body of
          None \<Rightarrow> (HttpError 400 ''Invalid receipt format. Please verify input.'', receiptStorage)
        | Some receipt \<Rightarrow>
            if \<not> valid_receipt receipt
            then (HttpError 400 ''Invalid receipt format. Please verify input.'', receiptStorage)
            else let receiptID = newID
                 in (ReceiptResponse receiptID, receiptStorage(receiptID \<mapsto> receipt))))"

text \<open>
  \<^verbatim>\<open>getPoints\<close>. \<open>path\<close> is \<^verbatim>\<open>r.URL.Path\<close>. A panic of \<^verbatim>\<open>computePoints\<close> is a
  panic of the handler.
\<close>

definition getPoints ::
    "(float64 \<Rightarrow> 64 word) \<Rightarrow> string \<Rightarrow> string \<Rightarrow> storage \<Rightarrow> panic + response" where
  "getPoints impl method path receiptStorage =
     (if method \<noteq> ''GET'' then Inr (HttpError 405 ''Method not allowed'')
      else let receiptID = TrimPrefix path ''/receipts/'';
               receiptID = TrimSuffix receiptID ''/points''
           in if \<not> MatchString_nonspace receiptID
              then Inr (HttpError 400 ''Invalid receipt ID format'')
              else (case receiptStorage receiptID of
                  None \<Rightarrow> Inr (HttpError 404 ''Receipt not found'')
                | Some receipt \<Rightarrow>
                    (case computePoints impl receipt of
                       Inl p \<Rightarrow> Inl p
                     | Inr points \<Rightarrow> Inr (PointsResponse points))))"

section \<open>The scoring rules as the specification words them\<close>

text \<open>
  Each rule of the specification is a function from the receipt to its contribution.
  They use the library functions above for parsing and for floating point, and nothing
  of \<^const>\<open>computePoints\<close>. The day is the third part of the date between dashes;
  \<open>day_rule\<close> is only used for dates that have one.
\<close>

definition ascii_alnum :: "char \<Rightarrow> bool" where
  "ascii_alnum c = isAlphanumeric (byte c)"

definition retailer_rule :: "Receipt \<Rightarrow> 64 word" where
  "retailer_rule r = word_of_nat (length (filter ascii_alnum (StoreName r)))"

definition round_dollar_rule :: "Receipt \<Rightarrow> 64 word" where
  "round_dollar_rule r = (if HasSuffix (TotalAmount r) ''.00'' then 50 else 0)"

definition quarter_rule :: "Receipt \<Rightarrow> 64 word" where
  "quarter_rule r =
     (if is_zero (Mod (fst (ParseFloat (TotalAmount r))) const_0_25) then 25 else 0)"

definition pair_rule :: "Receipt \<Rightarrow> 64 word" where
  "pair_rule r = 5 * word_of_nat (length (PurchasedItems r) div 2)"

definition item_points :: "(float64 \<Rightarrow> 64 word) \<Rightarrow> Item \<Rightarrow> 64 word" where
  "item_points impl item =
     float64_to_int impl (Ceil (fmul (fst (ParseFloat (Price item))) const_0_2))"

definition description_rule :: "(float64 \<Rightarrow> 64 word) \<Rightarrow> Receipt \<Rightarrow> 64 word" where
  "description_rule impl r =
     sum_list (map (\<lambda>item. if 3 dvd length (TrimSpace (Description item))
                            then item_points impl item else 0) (PurchasedItems r))"

definition day_rule :: "Receipt \<Rightarrow> 64 word" where
  "day_rule r =
     (if odd (fst (Atoi (Split (DateOfPurchase r) CHR ''-'' ! 2))) then 6 else 0)"

definition hour_rule :: "Receipt \<Rightarrow> 64 word" where
  "hour_rule r =
     (let hour = fst (Atoi (hd (Split (TimeOfPurchase r) CHR '':'')))
      in if 14 \<le> hour \<and> hour < 16 then 10 else 0)"

section \<open>Example data\<close>

text \<open>The receipt of the README, and the identifier of its example response.\<close>

definition example_item :: Item where
  "example_item = \<lparr>Description = ''Mountain Dew 12PK'', Price = ''6.49''\<rparr>"

definition example_receipt :: Receipt where
  "example_receipt =
     \<lparr>StoreName = ''Target'', DateOfPurchase = ''2022-01-01'', TimeOfPurchase = ''13:01'',
      TotalAmount = ''35.35'', PurchasedItems = [example_item]\<rparr>"

text \<open>Two items whose prices are large enough for their points to overflow an \<^verbatim>\<open>int\<close>.\<close>

definition costly_item :: Item where
  "costly_item = \<lparr>Description = ''Mountain Dew 12-PK'', Price = ''4e19''\<rparr>"

definition costly_receipt :: Receipt where
  "costly_receipt = example_receipt\<lparr>PurchasedItems := [costly_item, costly_item]\<rparr>"

text \<open>The receipt of the README with an item whose description is three spaces.\<close>

definition blank_receipt :: Receipt where
  "blank_receipt =
     example_receipt\<lparr>PurchasedItems := [\<lparr>Description = ''   '', Price = ''6.49''\<rparr>]\<rparr>"

definition example_id :: string where
  "example_id = ''7fb1377b-b223-49d9-a31a-5a02701dd310''"

section \<open>Lemmas about the library functions and the loops\<close>

lemma Split_not_Nil: "Split s sep \<noteq> []"
  by (induction s) auto

lemma retailer_loop_count:
  "retailer_loop rs p = p + word_of_nat (length (filter isAlphanumeric rs))"
  by (induction rs arbitrary: p) auto

lemma items_loop_sum:
  "items_loop impl items p =
     p + sum_list (map (\<lambda>item. if 3 dvd length (TrimSpace (Description item))
                               then item_points impl item else 0) items)"
  by (induction items arbitrary: p) (auto simp: item_points_def Let_def dvd_eq_mod_eq_0 add.assoc)

lemma smod_2_odd: "(k smod 2 \<noteq> 0) = odd (k :: int)"
  by (simp add: smod_int_alt_def sgn_if abs_if) presburger

lemma decode_ascii:
  "byte c < 128 \<Longrightarrow> DecodeRuneInString (c # cs) = (byte c, 1)"
  by (simp add: DecodeRuneInString_def)

lemma mod64_ge32: "160 \<le> x \<Longrightarrow> x \<le> 191 \<Longrightarrow> 32 \<le> x mod 64" for x :: nat
  by presburger

lemma mod64_ge16: "144 \<le> x \<Longrightarrow> x \<le> 191 \<Longrightarrow> 16 \<le> x mod 64" for x :: nat
  by presburger

lemma rune2_big: "2 \<le> A \<Longrightarrow> 128 \<le> A * 64 + B" for A B :: nat
  by linarith

lemma rune3_big: "1 \<le> A \<or> 32 \<le> B \<Longrightarrow> 128 \<le> A * 4096 + B * 64 + C" for A B C :: nat
  by linarith

lemma rune4_big:
  "1 \<le> A \<or> 16 \<le> B \<Longrightarrow> 128 \<le> A * 262144 + B * 4096 + C * 64 + D" for A B C D :: nat
  by linarith

lemma first_info_cases:
  assumes "first_info b = Some (sz, lo, hi)"
  shows "128 \<le> lo \<and> hi \<le> 191
         \<and> ((sz = 2 \<and> 2 \<le> b mod 32) \<or> (sz = 3 \<and> (1 \<le> b mod 16 \<or> 160 \<le> lo))
             \<or> (sz = 4 \<and> (1 \<le> b mod 8 \<or> 144 \<le> lo)))"
proof -
  consider "194 \<le> b \<and> b \<le> 223 \<and> sz = 2 \<and> lo = 128 \<and> hi = 191"
    | "b = 224 \<and> sz = 3 \<and> lo = 160 \<and> hi = 191"
    | "225 \<le> b \<and> b \<le> 239 \<and> sz = 3 \<and> 128 \<le> lo \<and> hi \<le> 191"
    | "b = 240 \<and> sz = 4 \<and> lo = 144 \<and> hi = 191"
    | "241 \<le> b \<and> b \<le> 244 \<and> sz = 4 \<and> lo = 128 \<and> hi \<le> 191"
    using assms by (auto simp: first_info_def split: if_splits)
  then show ?thesis
  proof cases
    case 1
    then have "2 \<le> b mod 32" by presburger
    with 1 show ?thesis by simp
  next
    case 2
    then show ?thesis by simp
  next
    case 3
    then have "1 \<le> b mod 16" by presburger
    with 3 show ?thesis by simp
  next
    case 4
    then show ?thesis by simp
  next
    case 5
    then have "1 \<le> b mod 8" by presburger
    with 5 show ?thesis by simp
  qed
qed

lemma decode_nonascii:
  assumes "128 \<le> byte c" and "DecodeRuneInString (c # cs) = (r, w)"
  shows "\<not> isAlphanumeric r \<and> 1 \<le> w \<and> w \<le> length (c # cs)
         \<and> filter ascii_alnum (take w (c # cs)) = []"
proof -
  have c: "\<not> ascii_alnum c"
    using assms(1) by (simp add: ascii_alnum_def isAlphanumeric_def)
  have k: "\<not> ascii_alnum x" if "128 \<le> byte x" for x
    using that by (simp add: ascii_alnum_def isAlphanumeric_def)
  have big: "\<not> isAlphanumeric x" if "128 \<le> x" for x
    using that by (simp add: isAlphanumeric_def)
  have err: ?thesis if "(r, w) = (RuneError, 1)"
    using that c by (simp add: RuneError_def isAlphanumeric_def)
  show ?thesis
  proof (cases "first_info (byte c)")
    case None
    with assms have "(r, w) = (RuneError, 1)"
      by (simp add: DecodeRuneInString_def)
    then show ?thesis by (rule err)
  next
    case (Some t)
    obtain sz lo hi where t: "t = (sz, lo, hi)" by (cases t)
    note fi = first_info_cases [OF Some [unfolded t]]
    have lo: "128 \<le> lo" and hi: "hi \<le> 191" using fi by simp_all
    have sz: "sz = 2 \<or> sz = 3 \<or> sz = 4" using fi by blast
    have D: "DecodeRuneInString (c # cs) =
       (if length (c # cs) < sz then (RuneError, 1)
        else if byte (cs ! 0) < lo \<or> hi < byte (cs ! 0) then (RuneError, 1)
        else if sz \<le> 2 then ((byte c mod 32) * 64 + byte (cs ! 0) mod 64, 2)
        else if \<not> continuation (byte (cs ! 1)) then (RuneError, 1)
        else if sz \<le> 3
          then ((byte c mod 16) * 4096 + (byte (cs ! 0) mod 64) * 64 + byte (cs ! 1) mod 64, 3)
        else if \<not> continuation (byte (cs ! 2)) then (RuneError, 1)
        else ((byte c mod 8) * 262144 + (byte (cs ! 0) mod 64) * 4096
                + (byte (cs ! 1) mod 64) * 64 + byte (cs ! 2) mod 64, 4))"
      unfolding DecodeRuneInString_def Let_def using assms(1) Some t
      by (simp split del: if_split cong: if_cong)
    note D = D [unfolded assms(2)]
    show ?thesis
    proof (cases "(r, w) = (RuneError, 1)")
      case True
      then show ?thesis by (rule err)
    next
      case False
      with D have len: "sz \<le> length (c # cs)"
        and c1: "lo \<le> byte (cs ! 0)" "byte (cs ! 0) \<le> hi"
        by (auto split: if_splits)
      from len sz obtain c1 cs1 where cs: "cs = c1 # cs1"
        by (cases cs) auto
      have b1: "128 \<le> byte c1" "byte c1 \<le> 191" "lo \<le> byte c1"
        using c1 lo hi cs by auto
      show ?thesis
      proof (cases "sz = 2")
        case True
        with D False cs have rw: "r = (byte c mod 32) * 64 + byte c1 mod 64" "w = 2"
          by (auto split: if_splits)
        have "2 \<le> byte c mod 32" using fi True by auto
        then have "128 \<le> r" unfolding rw by (rule rune2_big)
        then have "\<not> isAlphanumeric r" by (rule big)
        then show ?thesis using rw(2) c cs k [OF b1(1)] by simp
      next
        case n2: False
        with D False sz have c2: "continuation (byte (cs ! 1))"
          by (auto split: if_splits)
        from len sz n2 cs obtain c2 cs2 where cs1: "cs1 = c2 # cs2"
          by (cases cs1) auto
        have b2: "128 \<le> byte c2"
          using c2 cs cs1 by (simp add: continuation_def)
        show ?thesis
        proof (cases "sz = 3")
          case True
          with D False cs cs1
          have rw: "r = (byte c mod 16) * 4096 + (byte c1 mod 64) * 64 + byte c2 mod 64" "w = 3"
            by (auto split: if_splits)
          have "1 \<le> byte c mod 16 \<or> 160 \<le> lo" using fi True by auto
          then have "1 \<le> byte c mod 16 \<or> 32 \<le> byte c1 mod 64"
            using mod64_ge32 [of "byte c1"] b1 by auto
          then have "128 \<le> r" unfolding rw by (rule rune3_big)
          then have "\<not> isAlphanumeric r" by (rule big)
          then show ?thesis using rw(2) c cs cs1 k [OF b1(1)] k [OF b2] by simp
        next
          case n3: False
          then have s4: "sz = 4" using sz n2 by simp
          with D False have c3: "continuation (byte (cs ! 2))"
            by (auto split: if_splits)
          from len s4 cs cs1 obtain c3 cs3 where cs2: "cs2 = c3 # cs3"
            by (cases cs2) auto
          have b3: "128 \<le> byte c3"
            using c3 cs cs1 cs2 by (simp add: continuation_def)
          from D False s4 cs cs1 cs2
          have rw: "r = (byte c mod 8) * 262144 + (byte c1 mod 64) * 4096
                          + (byte c2 mod 64) * 64 + byte c3 mod 64" "w = 4"
            by (auto split: if_splits)
          have "1 \<le> byte c mod 8 \<or> 144 \<le> lo" using fi s4 by auto
          then have "1 \<le> byte c mod 8 \<or> 16 \<le> byte c1 mod 64"
            using mod64_ge16 [of "byte c1"] b1 by auto
          then have "128 \<le> r" unfolding rw by (rule rune4_big)
          then have "\<not> isAlphanumeric r" by (rule big)
          then show ?thesis
            using rw(2) c cs cs1 cs2 k [OF b1(1)] k [OF b2] k [OF b3] by simp
        qed
      qed
    qed
  qed
qed

lemma range_runes_alnum:
  "length (filter isAlphanumeric (range_runes s)) = length (filter ascii_alnum s)"
proof (induction s rule: range_runes.induct)
  case (1 s)
  show ?case
  proof (cases s)
    case Nil
    then show ?thesis by (simp add: range_runes.simps)
  next
    case (Cons c cs)
    show ?thesis
    proof (cases "byte c < 128")
      case True
      then have d: "DecodeRuneInString s = (byte c, 1)"
        using Cons by (simp add: decode_ascii)
      have "range_runes s = byte c # range_runes cs"
        using Cons d by (subst range_runes.simps) simp
      moreover have "length (filter isAlphanumeric (range_runes cs)) = length (filter ascii_alnum cs)"
        using "1.IH" Cons d by simp
      moreover have "isAlphanumeric (byte c) = ascii_alnum c"
        by (simp add: ascii_alnum_def)
      ultimately show ?thesis
        using Cons by simp
    next
      case False
      obtain r w where d: "DecodeRuneInString s = (r, w)"
        by (cases "DecodeRuneInString s")
      from False d Cons
      have p: "\<not> isAlphanumeric r" "1 \<le> w" "filter ascii_alnum (take w s) = []"
        using decode_nonascii [of c cs r w] by auto
      have "range_runes s = r # range_runes (drop w s)"
        using Cons d p(2) by (subst range_runes.simps) (simp add: max_def)
      moreover have "length (filter isAlphanumeric (range_runes (drop w s)))
                       = length (filter ascii_alnum (drop w s))"
        using "1.IH" Cons d p(2) by (simp add: max_def)
      moreover have "filter ascii_alnum s = filter ascii_alnum (take w s) @ filter ascii_alnum (drop w s)"
        by (metis append_take_drop_id filter_append)
      ultimately show ?thesis
        using p by simp
    qed
  qed
qed

lemma computePoints_sum:
  "computePoints impl r =
     (if length (Split (DateOfPurchase r) CHR ''-'') \<le> 2
      then Inl (IndexOutOfRange 2 (length (Split (DateOfPurchase r) CHR ''-'')))
      else Inr (retailer_rule r + round_dollar_rule r + quarter_rule r + pair_rule r
                + description_rule impl r + day_rule r + hour_rule r))"
proof -
  have h: "Split (TimeOfPurchase r) CHR '':'' ! 0 = hd (Split (TimeOfPurchase r) CHR '':'')"
    using Split_not_Nil by (simp add: hd_conv_nth)
  show ?thesis
    unfolding computePoints_def Let_def retailer_loop_count range_runes_alnum items_loop_sum
      smod_2_odd h retailer_rule_def round_dollar_rule_def quarter_rule_def pair_rule_def
      description_rule_def day_rule_def hour_rule_def
    by (simp add: ac_simps)
qed

lemma TrimPrefix_append: "TrimPrefix (pre @ s) pre = s"
  by (simp add: TrimPrefix_def HasPrefix_def)

lemma TrimSuffix_append: "TrimSuffix (s @ suf) suf = s"
  by (simp add: TrimSuffix_def HasSuffix_def)

lemma valid_example_receipt: "valid_receipt example_receipt"
  by (simp add: valid_receipt_def example_receipt_def)

lemma MatchString_example_id: "MatchString_nonspace example_id"
  by (simp add: MatchString_nonspace_def example_id_def reSpace_def byte_def)

lemmas float_eval = round_float64_def floor_log2_def bit_length.simps Let_def scale_float64_def
lemmas read_eval = readFloat_def isDigit_def digitVal_def byte_def lower_def isHexLetter_def
  underscoreOK_def
lemmas special_eval = special_def special_inf_def byte_def

lemma const_0_25_eq: "const_0_25 = Finite False 4503599627370496 (- 54)"
  by (simp add: const_0_25_def float_eval)

lemma const_0_2_eq: "const_0_2 = Finite False 7205759403792794 (- 55)"
  by (simp add: const_0_2_def float_eval)

lemma ParseFloat_10_00: "ParseFloat ''10.00'' = (Finite False 5629499534213120 (- 49), None)"
proof -
  have s: "special ''10.00'' = None" by (simp add: special_eval)
  have r: "readFloat ''10.00'' = Some (1000, - 2, False, False, [])" by (simp add: read_eval)
  have f: "scale_float64 False 1000 10 (- 2) = Finite False 5629499534213120 (- 49)"
    by (simp add: float_eval)
  show ?thesis by (simp add: ParseFloat_def atof64_def s r f)
qed

lemma ParseFloat_35_35: "ParseFloat ''35.35'' = (Finite False 4975070213360845 (- 47), None)"
proof -
  have s: "special ''35.35'' = None" by (simp add: special_eval)
  have r: "readFloat ''35.35'' = Some (3535, - 2, False, False, [])" by (simp add: read_eval)
  have f: "scale_float64 False 3535 10 (- 2) = Finite False 4975070213360845 (- 47)"
    by (simp add: float_eval)
  show ?thesis by (simp add: ParseFloat_def atof64_def s r f)
qed

lemma ParseFloat_6_49: "ParseFloat ''6.49'' = (Finite False 7307090395408630 (- 50), None)"
proof -
  have s: "special ''6.49'' = None" by (simp add: special_eval)
  have r: "readFloat ''6.49'' = Some (649, - 2, False, False, [])" by (simp add: read_eval)
  have f: "scale_float64 False 649 10 (- 2) = Finite False 7307090395408630 (- 50)"
    by (simp add: float_eval)
  show ?thesis by (simp add: ParseFloat_def atof64_def s r f)
qed

lemma ParseFloat_4e19: "ParseFloat ''4e19'' = (Finite False 4882812500000000 13, None)"
proof -
  have s: "special ''4e19'' = None" by (simp add: special_eval)
  have r: "readFloat ''4e19'' = Some (4, 19, False, False, [])" by (simp add: read_eval)
  have f: "scale_float64 False 4 10 19 = Finite False 4882812500000000 13"
    by (simp add: float_eval)
  show ?thesis by (simp add: ParseFloat_def atof64_def s r f)
qed

lemma fmul_6_49:
  "fmul (Finite False 7307090395408630 (- 50)) const_0_2 = Finite False 5845672316326904 (- 52)"
  by (simp add: const_0_2_eq float_eval)

lemma fmul_4e19:
  "fmul (Finite False 4882812500000000 13) const_0_2 = Finite False 7812500000000000 10"
  by (simp add: const_0_2_eq float_eval)

lemma ParseFloat_abc: "ParseFloat ''abc'' = (Finite False 0 0, Some ErrSyntax)"
proof -
  have s: "special ''abc'' = None" by (simp add: special_eval)
  have r: "readFloat ''abc'' = None" by (simp add: read_eval)
  show ?thesis by (simp add: ParseFloat_def atof64_def s r)
qed

lemma Mod_10: "is_zero (Mod (Finite False 5629499534213120 (- 49)) const_0_25)"
  by (simp add: const_0_25_eq)

lemma Mod_35: "\<not> is_zero (Mod (Finite False 4975070213360845 (- 47)) const_0_25)"
  by (simp add: const_0_25_eq)

lemma Mod_0: "is_zero (Mod (Finite False 0 0) const_0_25)"
  by (simp add: const_0_25_eq)

lemma TrimSpace_dew: "TrimSpace ''Mountain Dew 12PK'' = ''Mountain Dew 12PK''"
  by (simp add: TrimSpace.simps TrimSpace_stop.simps asciiSpace_def byte_def)

lemma TrimSpace_dew2: "TrimSpace ''Mountain Dew 12-PK'' = ''Mountain Dew 12-PK''"
  by (simp add: TrimSpace.simps TrimSpace_stop.simps asciiSpace_def byte_def)

lemma TrimSpace_blank: "TrimSpace ''   '' = []"
  by (simp add: TrimSpace.simps asciiSpace_def byte_def)

lemma Atoi_01: "Atoi ''01'' = (1, None)"
  by (simp add: Atoi_def isDigit_def digitVal_def byte_def)

lemma Atoi_13: "Atoi ''13'' = (13, None)"
  by (simp add: Atoi_def isDigit_def digitVal_def byte_def)

lemma atof64_error_value:
  assumes "atof64 s = (f, n, err)"
  shows "err = Some ErrSyntax \<Longrightarrow> f = Finite False 0 0"
    and "err = Some ErrRange \<Longrightarrow> \<exists>sg. f = Infinite sg"
  using assms
  by (auto simp: atof64_def Let_def split: option.splits prod.splits float64.splits)

lemma ParseFloat_error_value:
  shows "snd (ParseFloat s) = Some ErrSyntax \<Longrightarrow> fst (ParseFloat s) = Finite False 0 0"
    and "snd (ParseFloat s) = Some ErrRange \<Longrightarrow> \<exists>sg. fst (ParseFloat s) = Infinite sg"
proof -
  obtain f n err where a: "atof64 s = (f, n, err)"
    by (cases "atof64 s")
  show "snd (ParseFloat s) = Some ErrSyntax \<Longrightarrow> fst (ParseFloat s) = Finite False 0 0"
    using atof64_error_value(1) [OF a] by (simp add: ParseFloat_def a split: if_splits)
  show "snd (ParseFloat s) = Some ErrRange \<Longrightarrow> \<exists>sg. fst (ParseFloat s) = Infinite sg"
    using atof64_error_value(2) [OF a] by (simp add: ParseFloat_def a split: if_splits)
qed

lemma quarter_rule_error:
  assumes "snd (ParseFloat (TotalAmount r)) = Some e"
  shows "quarter_rule r = (if e = ErrSyntax then 25 else 0)"
proof (cases e)
  case ErrSyntax
  then show ?thesis
    using ParseFloat_error_value(1) [of "TotalAmount r"] assms
    by (simp add: quarter_rule_def Mod_0)
next
  case ErrRange
  then obtain sg where "fst (ParseFloat (TotalAmount r)) = Infinite sg"
    using ParseFloat_error_value(2) [of "TotalAmount r"] assms by auto
  then show ?thesis
    using ErrRange by (simp add: quarter_rule_def const_0_25_eq)
qed

lemma computePoints_Inr:
  assumes "computePoints impl r = Inr p"
  shows "p = retailer_rule r + round_dollar_rule r + quarter_rule r + pair_rule r
             + description_rule impl r + day_rule r + hour_rule r"
  using assms by (simp add: computePoints_sum split: if_splits)

lemma HasSuffix_suffix: "HasSuffix s t = suffix t s"
proof
  assume "HasSuffix s t"
  then have "s = take (length s - length t) s @ t"
    by (metis HasSuffix_def append_take_drop_id)
  then show "suffix t s"
    unfolding suffix_def by blast
next
  assume "suffix t s"
  then show "HasSuffix s t"
    by (auto simp: suffix_def HasSuffix_def)
qed

subsection \<open>The rules on the example receipts\<close>

lemma length_TrimSpace_dew: "length (TrimSpace ''Mountain Dew 12PK'') = 17"
  by (simp add: TrimSpace_dew)

lemma length_TrimSpace_dew2: "length (TrimSpace ''Mountain Dew 12-PK'') = 18"
  by (simp add: TrimSpace_dew2)

lemma item_points_6_49: "item_points impl \<lparr>Description = d, Price = ''6.49''\<rparr> = 2"
  by (simp add: item_points_def ParseFloat_6_49 fmul_6_49 float64_to_int_def trunc_float64_def)

lemma item_points_4e19:
  "item_points impl \<lparr>Description = d, Price = ''4e19''\<rparr> = 8000000000000000000"
  by (simp add: item_points_def ParseFloat_4e19 fmul_4e19 float64_to_int_def trunc_float64_def)

lemma computePoints_example_total:
  "computePoints impl (example_receipt\<lparr>TotalAmount := t\<rparr>)
     = Inr (12 + round_dollar_rule (example_receipt\<lparr>TotalAmount := t\<rparr>)
               + quarter_rule (example_receipt\<lparr>TotalAmount := t\<rparr>))"
  by (simp add: computePoints_sum example_receipt_def example_item_def retailer_rule_def
      pair_rule_def description_rule_def day_rule_def hour_rule_def ascii_alnum_def
      isAlphanumeric_def byte_def Atoi_01 Atoi_13 length_TrimSpace_dew)

lemma computePoints_example: "computePoints impl example_receipt = Inr 12"
proof -
  have e: "example_receipt\<lparr>TotalAmount := ''35.35''\<rparr> = example_receipt"
    by (simp add: example_receipt_def)
  show ?thesis
    using computePoints_example_total [of impl "''35.35''"] unfolding e
    by (simp add: round_dollar_rule_def quarter_rule_def example_receipt_def HasSuffix_def
        ParseFloat_35_35 Mod_35)
qed

lemma computePoints_abc:
  "computePoints impl (example_receipt\<lparr>TotalAmount := ''abc''\<rparr>) = Inr 37"
  using computePoints_example_total [of impl "''abc''"]
  by (simp add: round_dollar_rule_def quarter_rule_def HasSuffix_def ParseFloat_abc Mod_0)

lemma computePoints_10_00:
  "computePoints impl (example_receipt\<lparr>TotalAmount := ''10.00''\<rparr>) = Inr 87"
  using computePoints_example_total [of impl "''10.00''"]
  by (simp add: round_dollar_rule_def quarter_rule_def HasSuffix_def ParseFloat_10_00 Mod_10)

lemma computePoints_costly:
  "computePoints impl costly_receipt = Inr 16000000000000000017"
  by (simp add: computePoints_sum costly_receipt_def costly_item_def example_receipt_def
      retailer_rule_def round_dollar_rule_def quarter_rule_def pair_rule_def
      description_rule_def day_rule_def hour_rule_def ascii_alnum_def isAlphanumeric_def
      byte_def Atoi_01 Atoi_13 length_TrimSpace_dew2 item_points_4e19 HasSuffix_def
      ParseFloat_35_35 Mod_35)

lemma computePoints_blank_item: "computePoints impl blank_receipt = Inr 14"
  by (simp add: computePoints_sum blank_receipt_def example_receipt_def
      retailer_rule_def round_dollar_rule_def quarter_rule_def pair_rule_def
      description_rule_def day_rule_def hour_rule_def ascii_alnum_def isAlphanumeric_def
      byte_def Atoi_01 Atoi_13 TrimSpace_blank item_points_6_49 HasSuffix_def
      ParseFloat_35_35 Mod_35)

section \<open>The claims\<close>

text \<open>
  Claim C8 (store round trip). For every valid receipt \<open>r\<close>, submitting it stores it
  under the identifier that the response carries, and looking that identifier up gives
  back exactly \<open>r\<close>, all fields unchanged: after \<^const>\<open>processReceipt\<close> the store maps
  the new identifier to \<open>r\<close>, and \<^const>\<open>getPoints\<close> for that identifier (a string
  without white space, as every UUID is) finds \<open>r\<close> and answers with the points of
  \<open>r\<close>.
\<close>

theorem store_round_trip:
  assumes "valid_receipt r"
  shows "fst (processReceipt ''POST'' (Some r) newID st) = ReceiptResponse newID
         \<and> snd (processReceipt ''POST'' (Some r) newID st) newID = Some r
         \<and> (MatchString_nonspace newID \<longrightarrow>
              getPoints impl ''GET'' (''/receipts/'' @ newID @ ''/points'')
                  (snd (processReceipt ''POST'' (Some r) newID st))
                = (case computePoints impl r of
                     Inl p \<Rightarrow> Inl p | Inr points \<Rightarrow> Inr (PointsResponse points)))"
proof -
  have "TrimSuffix (TrimPrefix (''/receipts/'' @ newID @ ''/points'') ''/receipts/'') ''/points''
          = newID"
    unfolding TrimPrefix_append TrimSuffix_append ..
  then show ?thesis
    using assms unfolding getPoints_def Let_def processReceipt_def
    by simp
qed

theorem store_round_trip_witness:
  "valid_receipt example_receipt
   \<and> fst (processReceipt ''POST'' (Some example_receipt) example_id Map.empty)
       = ReceiptResponse example_id
   \<and> snd (processReceipt ''POST'' (Some example_receipt) example_id Map.empty) example_id
       = Some example_receipt
   \<and> getPoints amd64 ''GET'' (''/receipts/'' @ example_id @ ''/points'')
         (snd (processReceipt ''POST'' (Some example_receipt) example_id Map.empty))
       = (case computePoints amd64 example_receipt of
            Inl p \<Rightarrow> Inl p | Inr points \<Rightarrow> Inr (PointsResponse points))"
  using store_round_trip [OF valid_example_receipt, of example_id Map.empty amd64]
    valid_example_receipt MatchString_example_id
  by simp

text \<open>
  Claim C9 (invalid input). A submitted receipt that fails the required-field check
  (an empty retailer, date, time or total, or no items) is answered with the client
  error 400, the response carries no identifier, and the store is returned unchanged.
\<close>

theorem invalid_receipt_rejected:
  assumes "\<not> valid_receipt r"
  shows "processReceipt ''POST'' (Some r) newID st
           = (HttpError 400 ''Invalid receipt format. Please verify input.'', st)"
  using assms by (simp add: processReceipt_def)

theorem invalid_receipt_rejected_witness:
  "\<not> valid_receipt (example_receipt\<lparr>TotalAmount := []\<rparr>)
   \<and> processReceipt ''POST'' (Some (example_receipt\<lparr>TotalAmount := []\<rparr>)) example_id Map.empty
       = (HttpError 400 ''Invalid receipt format. Please verify input.'', Map.empty)"
proof -
  have h: "\<not> valid_receipt (example_receipt\<lparr>TotalAmount := []\<rparr>)"
    by (simp add: valid_receipt_def)
  show ?thesis
    using h invalid_receipt_rejected [OF h, of example_id Map.empty] by simp
qed

text \<open>
  Claim C10 (item order). For every receipt and every permutation of its items, the
  outcome of \<^const>\<open>computePoints\<close> is the same: the same points, or the same panic.
\<close>

theorem permuted_items_same_points:
  assumes "mset items' = mset (PurchasedItems r)"
  shows "computePoints impl (r\<lparr>PurchasedItems := items'\<rparr>) = computePoints impl r"
proof -
  let ?f = "\<lambda>item. if 3 dvd length (TrimSpace (Description item))
                    then item_points impl item else 0"
  have "sum_list (map ?f items') = sum_mset (image_mset ?f (mset items'))"
    by (simp add: sum_mset_sum_list [symmetric])
  also have "\<dots> = sum_list (map ?f (PurchasedItems r))"
    unfolding assms by (simp add: sum_mset_sum_list [symmetric])
  finally have d: "description_rule impl (r\<lparr>PurchasedItems := items'\<rparr>) = description_rule impl r"
    by (simp add: description_rule_def)
  have l: "length items' = length (PurchasedItems r)"
    using assms by (rule mset_eq_length)
  show ?thesis
    unfolding computePoints_sum d
    by (simp add: l retailer_rule_def round_dollar_rule_def quarter_rule_def pair_rule_def
        day_rule_def hour_rule_def)
qed

theorem permuted_items_same_points_witness:
  "mset [example_item\<lparr>Description := ''Emils Cheese Pizza''\<rparr>, example_item]
     = mset (PurchasedItems (example_receipt\<lparr>PurchasedItems :=
               [example_item, example_item\<lparr>Description := ''Emils Cheese Pizza''\<rparr>]\<rparr>))
   \<and> computePoints amd64 (example_receipt\<lparr>PurchasedItems :=
               [example_item\<lparr>Description := ''Emils Cheese Pizza''\<rparr>, example_item]\<rparr>)
     = computePoints amd64 (example_receipt\<lparr>PurchasedItems :=
               [example_item, example_item\<lparr>Description := ''Emils Cheese Pizza''\<rparr>]\<rparr>)"
proof -
  have h: "mset [example_item\<lparr>Description := ''Emils Cheese Pizza''\<rparr>, example_item]
     = mset (PurchasedItems (example_receipt\<lparr>PurchasedItems :=
               [example_item, example_item\<lparr>Description := ''Emils Cheese Pizza''\<rparr>]\<rparr>))"
    by simp
  show ?thesis
    using h permuted_items_same_points [OF h, of amd64] by simp
qed

text \<open>
  Claim C1 (rule additivity), as the code has it. The claim asks for the exact sum of the
  contributions for every receipt. \<^const>\<open>computePoints\<close> adds them up in an
  \<^verbatim>\<open>int\<close>, so the sum is taken modulo \<open>2\<^sup>6\<^sup>4\<close>: for the receipt
  \<^const>\<open>costly_receipt\<close> the contributions are 6 for the retailer, 5 for the pair of
  items, 8000000000000000000 for each of the two items and 6 for the odd day, which is
  16000000000000000017 in all, and the function returns the negative number
  \<open>-2446744073709551599\<close>.
\<close>

theorem score_wraps_counterexample:
  "computePoints amd64 costly_receipt = Inr 16000000000000000017
   \<and> sint (16000000000000000017 :: 64 word) = - 2446744073709551599
   \<and> 3 dvd length (TrimSpace (Description costly_item))
   \<and> sint (retailer_rule costly_receipt) + sint (round_dollar_rule costly_receipt)
       + sint (quarter_rule costly_receipt) + sint (pair_rule costly_receipt)
       + (sint (item_points amd64 costly_item) + sint (item_points amd64 costly_item))
       + sint (day_rule costly_receipt) + sint (hour_rule costly_receipt)
     = 16000000000000000017"
proof -
  have a: "computePoints amd64 costly_receipt = Inr 16000000000000000017"
    by (rule computePoints_costly)
  have b: "sint (16000000000000000017 :: 64 word) = - 2446744073709551599"
    by simp
  have c: "3 dvd length (TrimSpace (Description costly_item))"
    by (simp add: costly_item_def length_TrimSpace_dew2)
  have d: "sint (retailer_rule costly_receipt) + sint (round_dollar_rule costly_receipt)
       + sint (quarter_rule costly_receipt) + sint (pair_rule costly_receipt)
       + (sint (item_points amd64 costly_item) + sint (item_points amd64 costly_item))
       + sint (day_rule costly_receipt) + sint (hour_rule costly_receipt)
     = 16000000000000000017"
    by (simp add: costly_receipt_def costly_item_def example_receipt_def
        retailer_rule_def round_dollar_rule_def quarter_rule_def pair_rule_def
        day_rule_def hour_rule_def ascii_alnum_def isAlphanumeric_def
        byte_def Atoi_01 Atoi_13 item_points_4e19 HasSuffix_def ParseFloat_35_35 Mod_35)
  show ?thesis
    using a b c d by blast
qed

text \<open>
  Claim C1, amended: for every receipt whose purchase date has at least three parts
  between dashes, \<^const>\<open>computePoints\<close> returns the sum, in the 64-bit arithmetic of
  \<^verbatim>\<open>int\<close>, of the seven contributions: the number of ASCII letters and digits of the
  retailer, 50 for a total ending in \<^verbatim>\<open>.00\<close>, 25 for a total that is a multiple of
  0.25 in floating point, 5 for every two items, the rounded-up fifth of the price of
  every item whose trimmed description has a length divisible by 3, 6 for an odd day and
  10 for an hour from 14 up to 16. No rule is left out and none is applied twice.
\<close>

theorem score_is_sum_of_rules:
  assumes "2 < length (Split (DateOfPurchase r) CHR ''-'')"
  shows "computePoints impl r
           = Inr (retailer_rule r + round_dollar_rule r + quarter_rule r + pair_rule r
                  + description_rule impl r + day_rule r + hour_rule r)"
  using assms by (simp add: computePoints_sum)

theorem score_is_sum_of_rules_witness:
  "2 < length (Split (DateOfPurchase example_receipt) CHR ''-'')
   \<and> computePoints amd64 example_receipt
       = Inr (retailer_rule example_receipt + round_dollar_rule example_receipt
              + quarter_rule example_receipt + pair_rule example_receipt
              + description_rule amd64 example_receipt + day_rule example_receipt
              + hour_rule example_receipt)"
proof -
  have h: "2 < length (Split (DateOfPurchase example_receipt) CHR ''-'')"
    by (simp add: example_receipt_def)
  show ?thesis
    using h score_is_sum_of_rules [OF h, of amd64] by simp
qed

text \<open>
  Claim C2 (no panic on a valid receipt) fails on the code: the receipt of the README with
  the purchase date \<^verbatim>\<open>20220101\<close> passes the validation of \<^const>\<open>processReceipt\<close>,
  and \<^const>\<open>computePoints\<close> panics on it at \<^verbatim>\<open>dateParts[2]\<close>, the index 2 being out
  of range for a slice of length 1.
\<close>

theorem short_date_panics:
  "valid_receipt (example_receipt\<lparr>DateOfPurchase := ''20220101''\<rparr>)
   \<and> computePoints amd64 (example_receipt\<lparr>DateOfPurchase := ''20220101''\<rparr>)
       = Inl (IndexOutOfRange 2 1)"
  by (simp add: computePoints_sum valid_receipt_def example_receipt_def)

text \<open>
  Claim C3 (an unparsable total earns nothing from the quarter rule) fails on the code:
  \<^verbatim>\<open>abc\<close> is a syntax error for \<^verbatim>\<open>ParseFloat\<close>, which then returns 0; the error is
  dropped, 0 is a multiple of 0.25, and the 25 points are awarded. The receipt of the
  README has 12 points with its total \<^verbatim>\<open>35.35\<close> and 37 with the total \<^verbatim>\<open>abc\<close>.
\<close>

theorem unparsable_total_counterexample:
  "snd (ParseFloat ''abc'') = Some ErrSyntax
   \<and> is_zero (Mod (fst (ParseFloat ''abc'')) const_0_25)
   \<and> computePoints amd64 (example_receipt\<lparr>TotalAmount := ''abc''\<rparr>) = Inr 37
   \<and> computePoints amd64 example_receipt = Inr 12"
  by (simp add: ParseFloat_abc Mod_0 computePoints_abc computePoints_example)

text \<open>
  Claim C3, amended: when \<^verbatim>\<open>ParseFloat\<close> reports an error for the total, the
  computation goes on, and the quarter rule contributes 25 points when the error is a
  syntax error (the value is then 0) and nothing when it is a range error (the value is
  then an infinity, whose remainder is not a number).
\<close>

theorem unparsable_total_points:
  assumes "snd (ParseFloat (TotalAmount r)) = Some e"
    and "computePoints impl r = Inr p"
  shows "p = retailer_rule r + round_dollar_rule r + (if e = ErrSyntax then 25 else 0)
             + pair_rule r + description_rule impl r + day_rule r + hour_rule r"
  using computePoints_Inr [OF assms(2)] quarter_rule_error [OF assms(1)] by simp

theorem unparsable_total_points_witness:
  "snd (ParseFloat (TotalAmount (example_receipt\<lparr>TotalAmount := ''abc''\<rparr>))) = Some ErrSyntax
   \<and> computePoints amd64 (example_receipt\<lparr>TotalAmount := ''abc''\<rparr>) = Inr 37
   \<and> (37 :: 64 word)
       = retailer_rule (example_receipt\<lparr>TotalAmount := ''abc''\<rparr>)
         + round_dollar_rule (example_receipt\<lparr>TotalAmount := ''abc''\<rparr>)
         + 25
         + pair_rule (example_receipt\<lparr>TotalAmount := ''abc''\<rparr>)
         + description_rule amd64 (example_receipt\<lparr>TotalAmount := ''abc''\<rparr>)
         + day_rule (example_receipt\<lparr>TotalAmount := ''abc''\<rparr>)
         + hour_rule (example_receipt\<lparr>TotalAmount := ''abc''\<rparr>)"
proof -
  have h: "snd (ParseFloat (TotalAmount (example_receipt\<lparr>TotalAmount := ''abc''\<rparr>)))
             = Some ErrSyntax"
    by (simp add: ParseFloat_abc)
  show ?thesis
    using h unparsable_total_points [OF h computePoints_abc [of amd64]]
    by (simp add: computePoints_abc)
qed

text \<open>
  Claim C4 (the item \<^verbatim>\<open>Mountain Dew 12PK\<close> at 6.49 earns 2 points) fails on the code:
  the description has 17 bytes, trimmed or not, and 17 is not a multiple of 3, so the
  loop over the items adds nothing for it.
\<close>

theorem mountain_dew_counterexample:
  "length (TrimSpace (Description example_item)) = 17
   \<and> items_loop amd64 [example_item] 0 = 0"
  by (simp add: example_item_def length_TrimSpace_dew)

text \<open>
  Claim C4, amended: the item with the description \<^verbatim>\<open>Mountain Dew 12PK\<close>, of trimmed
  length 17, and the price \<^verbatim>\<open>6.49\<close> contributes no points. The 2 points, which are
  \<open>6.49 * 0.2 = 1.298\<close> rounded up, are what the price contributes under a description
  of a trimmed length divisible by 3, such as the 18 bytes of \<^verbatim>\<open>Mountain Dew 12-PK\<close>.
\<close>

theorem mountain_dew_points:
  "items_loop impl [\<lparr>Description = ''Mountain Dew 12PK'', Price = ''6.49''\<rparr>] points = points
   \<and> items_loop impl [\<lparr>Description = ''Mountain Dew 12-PK'', Price = ''6.49''\<rparr>] points
       = points + 2"
  using item_points_6_49 [of impl "''Mountain Dew 12-PK''"]
  by (simp add: length_TrimSpace_dew length_TrimSpace_dew2 item_points_def)

theorem mountain_dew_points_witness:
  "items_loop amd64 [\<lparr>Description = ''Mountain Dew 12PK'', Price = ''6.49''\<rparr>] 0 = 0
   \<and> items_loop amd64 [\<lparr>Description = ''Mountain Dew 12-PK'', Price = ''6.49''\<rparr>] 0 = 2"
  using mountain_dew_points [of amd64 0] by simp

text \<open>
  Claim C5 (quarter rule). In the points that \<^const>\<open>computePoints\<close> returns, the total
  accounts for 25 points exactly when the remainder of the parsed total by 0.25, in
  floating point, compares equal to 0, and for none otherwise; the total \<^verbatim>\<open>10.00\<close>
  has remainder 0 and the total \<^verbatim>\<open>35.35\<close> has not.
\<close>

theorem quarter_multiple_rule:
  assumes "computePoints impl r = Inr p"
  shows "p = (if is_zero (Mod (fst (ParseFloat (TotalAmount r))) const_0_25) then 25 else 0)
             + (retailer_rule r + round_dollar_rule r + pair_rule r
                + description_rule impl r + day_rule r + hour_rule r)
         \<and> is_zero (Mod (fst (ParseFloat ''10.00'')) const_0_25)
         \<and> \<not> is_zero (Mod (fst (ParseFloat ''35.35'')) const_0_25)"
  using computePoints_Inr [OF assms]
  by (simp add: quarter_rule_def ParseFloat_10_00 ParseFloat_35_35 Mod_10 Mod_35)

theorem quarter_multiple_rule_witness:
  "computePoints amd64 (example_receipt\<lparr>TotalAmount := ''10.00''\<rparr>) = Inr 87
   \<and> (87 :: 64 word)
       = 25 + (retailer_rule (example_receipt\<lparr>TotalAmount := ''10.00''\<rparr>)
               + round_dollar_rule (example_receipt\<lparr>TotalAmount := ''10.00''\<rparr>)
               + pair_rule (example_receipt\<lparr>TotalAmount := ''10.00''\<rparr>)
               + description_rule amd64 (example_receipt\<lparr>TotalAmount := ''10.00''\<rparr>)
               + day_rule (example_receipt\<lparr>TotalAmount := ''10.00''\<rparr>)
               + hour_rule (example_receipt\<lparr>TotalAmount := ''10.00''\<rparr>))"
  using quarter_multiple_rule [OF computePoints_10_00 [of amd64]]
  by (simp add: computePoints_10_00 ParseFloat_10_00 Mod_10)

text \<open>
  Claim C6 (round-dollar rule). In the points that \<^const>\<open>computePoints\<close> returns, the
  total accounts for 50 points exactly when its text ends with \<^verbatim>\<open>.00\<close>, whatever
  it parses to; and with the total \<^verbatim>\<open>10.00\<close> this rule and the quarter rule
  account for 75 points together.
\<close>

theorem round_dollar_rule_points:
  assumes "computePoints impl r = Inr p"
  shows "p = (if suffix ''.00'' (TotalAmount r) then 50 else 0)
             + (retailer_rule r + quarter_rule r + pair_rule r
                + description_rule impl r + day_rule r + hour_rule r)
         \<and> (TotalAmount r = ''10.00'' \<longrightarrow>
              p = 75 + (retailer_rule r + pair_rule r + description_rule impl r
                        + day_rule r + hour_rule r))"
  using computePoints_Inr [OF assms]
  by (simp add: round_dollar_rule_def quarter_rule_def HasSuffix_suffix
      ParseFloat_10_00 Mod_10 suffix_def)

theorem round_dollar_rule_points_witness:
  "computePoints amd64 (example_receipt\<lparr>TotalAmount := ''10.00''\<rparr>) = Inr 87
   \<and> (87 :: 64 word)
       = 75 + (retailer_rule (example_receipt\<lparr>TotalAmount := ''10.00''\<rparr>)
               + pair_rule (example_receipt\<lparr>TotalAmount := ''10.00''\<rparr>)
               + description_rule amd64 (example_receipt\<lparr>TotalAmount := ''10.00''\<rparr>)
               + day_rule (example_receipt\<lparr>TotalAmount := ''10.00''\<rparr>)
               + hour_rule (example_receipt\<lparr>TotalAmount := ''10.00''\<rparr>))"
  using round_dollar_rule_points [OF computePoints_10_00 [of amd64]]
  by (simp add: computePoints_10_00)

text \<open>
  Claim C7 (description rule). In the points that \<^const>\<open>computePoints\<close> returns, every
  item accounts for the rounded-up product of its parsed price and 0.2 when the length of
  its description, trimmed of white space at both ends, is a multiple of 3, and for
  nothing otherwise. A description that trims to the empty string has length 0 and
  counts: \<^const>\<open>blank_receipt\<close>, the receipt of the README with the one item of
  description \<^verbatim>\<open>"   "\<close> and price \<^verbatim>\<open>6.49\<close>, has its 12 points and the 2 of the item.
\<close>

theorem description_length_rule:
  assumes "computePoints impl r = Inr p"
  shows "p = (\<Sum>item\<leftarrow>PurchasedItems r.
                if length (TrimSpace (Description item)) mod 3 = 0
                then float64_to_int impl (Ceil (fmul (fst (ParseFloat (Price item))) const_0_2))
                else 0)
             + (retailer_rule r + round_dollar_rule r + quarter_rule r + pair_rule r
                + day_rule r + hour_rule r)
         \<and> length (TrimSpace ''   '') mod 3 = 0"
proof -
  have "description_rule impl r
          = (\<Sum>item\<leftarrow>PurchasedItems r.
                if length (TrimSpace (Description item)) mod 3 = 0
                then float64_to_int impl (Ceil (fmul (fst (ParseFloat (Price item))) const_0_2))
                else 0)"
    unfolding description_rule_def item_points_def dvd_eq_mod_eq_0 by (rule refl)
  then show ?thesis
    using computePoints_Inr [OF assms] by (simp add: TrimSpace_blank)
qed

theorem description_length_rule_witness:
  "computePoints amd64 blank_receipt = Inr 14
   \<and> PurchasedItems blank_receipt = [\<lparr>Description = ''   '', Price = ''6.49''\<rparr>]
   \<and> float64_to_int amd64 (Ceil (fmul (fst (ParseFloat ''6.49'')) const_0_2)) = 2
   \<and> (14 :: 64 word)
       = 2 + (retailer_rule blank_receipt + round_dollar_rule blank_receipt
              + quarter_rule blank_receipt + pair_rule blank_receipt
              + day_rule blank_receipt + hour_rule blank_receipt)"
proof -
  have i: "float64_to_int amd64 (Ceil (fmul (fst (ParseFloat ''6.49'')) const_0_2)) = 2"
    using item_points_6_49 [of amd64 "[]"] by (simp add: item_points_def)
  have b: "PurchasedItems blank_receipt = [\<lparr>Description = ''   '', Price = ''6.49''\<rparr>]"
    by (simp add: blank_receipt_def)
  show ?thesis
    using description_length_rule [OF computePoints_blank_item [of amd64]] i b
    by (simp add: computePoints_blank_item TrimSpace_blank)
qed

end
